theory Spec2Isabelle
  imports Main
begin

section \<open>Prior authorization form: data model\<close>

text \<open>
  The development follows \<^verbatim>\<open>src/frontend/components/PriorAuthForm.tsx\<close>. The component
  keeps its state in React hooks; every event handler reads the state of the current
  render and queues updates, so a handler is a function from the state before the event
  to the state after it.

  Strings are lists of 8-bit characters, read as the code units of the JavaScript string.
\<close>

record File =
  file_name :: string
  file_size :: nat

text \<open>
  \<^verbatim>\<open>validateField(name: string, value: any)\<close> receives the values that the fields of
  \<^verbatim>\<open>FormData\<close> hold: strings, the boolean of a checkbox, and \<^verbatim>\<open>File | null\<close>.
\<close>

datatype val = Str string | Bool bool | FileVal "File option"

record FormData =
  patientId :: string
  dob :: string
  physicianName :: string
  npiNumber :: string
  procedureCode :: string
  startDate :: string
  endDate :: string
  hasNotes :: bool
  uploadedFile :: "File option"

type_synonym FormErrors = "string \<rightharpoonup> string"

definition PROCEDURE_CODES :: "(string \<times> string) list" where
  "PROCEDURE_CODES =
    [('''', ''Select a procedure code''),
     (''A876'', ''A876 - Specialized Consultation''),
     (''B901'', ''B901 - Advanced Imaging''),
     (''C102'', ''C102 - Therapeutic Procedure''),
     (''D203'', ''D203 - Diagnostic Test'')]"

definition initialFormData :: FormData where
  "initialFormData =
    \<lparr>patientId = '''', dob = '''', physicianName = '''', npiNumber = '''',
     procedureCode = '''', startDate = '''', endDate = '''', hasNotes = False,
     uploadedFile = None\<rparr>"

section \<open>The JavaScript operations that the validator uses\<close>

text \<open>\<^verbatim>\<open>!value\<close>: the empty string, \<^verbatim>\<open>false\<close> and \<^verbatim>\<open>null\<close> are falsy, an object is truthy.\<close>

fun falsy :: "val \<Rightarrow> bool" where
  "falsy (Str s) = (s = [])"
| "falsy (Bool b) = (\<not> b)"
| "falsy (FileVal None) = True"
| "falsy (FileVal (Some f)) = False"

text \<open>\<^verbatim>\<open>RegExp.prototype.test\<close> converts its argument with ToString.\<close>

fun ToString :: "val \<Rightarrow> string" where
  "ToString (Str s) = s"
| "ToString (Bool b) = (if b then ''true'' else ''false'')"
| "ToString (FileVal None) = ''null''"
| "ToString (FileVal (Some f)) = ''[object File]''"

text \<open>
  \<^verbatim>\<open>value.length\<close>: the length of a string, \<^verbatim>\<open>undefined\<close> (here \<open>None\<close>) on a boolean or
  a File. A comparison with \<^verbatim>\<open>undefined\<close> is false. The validator reads \<^verbatim>\<open>value.length\<close>
  only after \<^verbatim>\<open>!value\<close> has returned for \<^verbatim>\<open>null\<close>.
\<close>

fun js_length :: "val \<Rightarrow> nat option" where
  "js_length (Str s) = Some (length s)"
| "js_length (Bool b) = None"
| "js_length (FileVal f) = None"

definition length_gt :: "val \<Rightarrow> nat \<Rightarrow> bool" where
  "length_gt value n = (case js_length value of Some l \<Rightarrow> l > n | None \<Rightarrow> False)"

definition length_lt :: "val \<Rightarrow> nat \<Rightarrow> bool" where
  "length_lt value n = (case js_length value of Some l \<Rightarrow> l < n | None \<Rightarrow> False)"

text \<open>\<^verbatim>\<open>/^[0-9a-fA-F-]{36}$/\<close> and \<^verbatim>\<open>/^\d{10}$/\<close>, without flags: the whole input.\<close>

definition test_uuid :: "string \<Rightarrow> bool" where
  "test_uuid s = (length s = 36 \<and> list_all (\<lambda>c. c \<in> set ''0123456789abcdefABCDEF-'') s)"

definition test_npi :: "string \<Rightarrow> bool" where
  "test_npi s = (length s = 10 \<and> list_all (\<lambda>c. c \<in> set ''0123456789'') s)"

text \<open>
  \<^verbatim>\<open>new Date(value)\<close>. The time value of a Date is a number of milliseconds since the
  epoch or NaN (here \<open>None\<close>). How a string is parsed belongs to the JavaScript engine, not
  to the program, so the parser is a parameter \<open>D\<close> of every function that reaches it.
  A boolean is converted with ToNumber, \<^verbatim>\<open>null\<close> gives 0, and a File is first converted to
  the string \<^verbatim>\<open>[object File]\<close>.
\<close>

fun new_Date :: "(string \<Rightarrow> int option) \<Rightarrow> val \<Rightarrow> int option" where
  "new_Date D (Str s) = D s"
| "new_Date D (Bool b) = Some (if b then 1 else 0)"
| "new_Date D (FileVal None) = Some 0"
| "new_Date D (FileVal (Some f)) = D ''[object File]''"

text \<open>\<^verbatim>\<open>a < b\<close> on two Dates compares the time values; with a NaN it is false.\<close>

fun Date_lt :: "int option \<Rightarrow> int option \<Rightarrow> bool" where
  "Date_lt (Some a) (Some b) = (a < b)"
| "Date_lt _ _ = False"

section \<open>validateField\<close>

definition validateField :: "(string \<Rightarrow> int option) \<Rightarrow> FormData \<Rightarrow> string \<Rightarrow> val \<Rightarrow> string" where
  "validateField D fd name value =
    (if name = ''patientId'' then
       (if falsy value then ''Patient ID is required''
        else if \<not> test_uuid (ToString value) \<and> length_gt value 0
          then ''Invalid UUID format (e.g., 123e4567-e89b-12d3-a456-426614174000)''
        else '''')
     else if name = ''dob'' then
       (if falsy value then ''Date of Birth is required'' else '''')
     else if name = ''physicianName'' then
       (if falsy value then ''Physician Name is required''
        else if length_lt value 2 then ''Name must be at least 2 characters''
        else '''')
     else if name = ''npiNumber'' then
       (if falsy value then ''NPI Number is required''
        else if \<not> test_npi (ToString value) then ''NPI must be exactly 10 digits''
        else '''')
     else if name = ''procedureCode'' then
       (if falsy value then ''Procedure Code is required'' else '''')
     else if name = ''startDate'' then
       (if falsy value then ''Start Date is required'' else '''')
     else if name = ''endDate'' then
       (if falsy value then ''End Date is required''
        else if startDate fd \<noteq> '''' \<and> Date_lt (new_Date D value) (new_Date D (Str (startDate fd)))
          then ''End Date cannot be before Start Date''
        else '''')
     else '''')"

section \<open>The form controller\<close>

text \<open>The target of a change or blur event, as the handlers destructure it.\<close>

record Target =
  name :: string
  "value" :: string
  type :: string
  checked :: bool

datatype toast_type = success | error

record Toast =
  message :: string
  kind :: toast_type

text \<open>
  The hooks of the component. Two further fields record effects that leave the React
  state: \<open>notifications\<close> lists every toast handed to \<^verbatim>\<open>setToast\<close>, oldest first, and
  \<open>apiCalls\<close> counts how often \<^verbatim>\<open>handleSubmit\<close> has started the request (in the source a
  two second timer that stands for \<^verbatim>\<open>POST /api/v1/claims/prior_auth\<close>).
\<close>

record FormState =
  formData :: FormData
  errors :: FormErrors
  isSubmitting :: bool
  toast :: "Toast option"
  isUploading :: bool
  notifications :: "Toast list"
  apiCalls :: nat

definition initialState :: FormState where
  "initialState =
    \<lparr>formData = initialFormData, errors = Map.empty, isSubmitting = False, toast = None,
     isUploading = False, notifications = [], apiCalls = 0\<rparr>"

definition setToast :: "Toast option \<Rightarrow> FormState \<Rightarrow> FormState" where
  "setToast t st =
    st\<lparr>toast := t,
       notifications := notifications st @ (case t of None \<Rightarrow> [] | Some n \<Rightarrow> [n])\<rparr>"

text \<open>
  \<^verbatim>\<open>{ ...prev, [name]: newValue }\<close>. The record holds the properties that the interface
  \<^verbatim>\<open>FormData\<close> declares, with their declared types. A name outside the interface adds a
  property that nothing reads. A boolean under a string key, or a string under
  \<^verbatim>\<open>hasNotes\<close> or \<^verbatim>\<open>uploadedFile\<close>, would leave the declared type; the record cannot hold
  it, and for such an event the record stays as it is.
\<close>

definition setField :: "string \<Rightarrow> val \<Rightarrow> FormData \<Rightarrow> FormData" where
  "setField key newValue prev =
    (case newValue of
       Str s \<Rightarrow>
         (if key = ''patientId'' then prev\<lparr>patientId := s\<rparr>
          else if key = ''dob'' then prev\<lparr>dob := s\<rparr>
          else if key = ''physicianName'' then prev\<lparr>physicianName := s\<rparr>
          else if key = ''npiNumber'' then prev\<lparr>npiNumber := s\<rparr>
          else if key = ''procedureCode'' then prev\<lparr>procedureCode := s\<rparr>
          else if key = ''startDate'' then prev\<lparr>startDate := s\<rparr>
          else if key = ''endDate'' then prev\<lparr>endDate := s\<rparr>
          else prev)
     | Bool b \<Rightarrow> (if key = ''hasNotes'' then prev\<lparr>hasNotes := b\<rparr> else prev)
     | FileVal f \<Rightarrow> (if key = ''uploadedFile'' then prev\<lparr>uploadedFile := f\<rparr> else prev))"

text \<open>\<^verbatim>\<open>(formData as any)[key]\<close>, for the keys of the interface.\<close>

definition field :: "FormData \<Rightarrow> string \<Rightarrow> val" where
  "field fd key =
    (if key = ''patientId'' then Str (patientId fd)
     else if key = ''dob'' then Str (dob fd)
     else if key = ''physicianName'' then Str (physicianName fd)
     else if key = ''npiNumber'' then Str (npiNumber fd)
     else if key = ''procedureCode'' then Str (procedureCode fd)
     else if key = ''startDate'' then Str (startDate fd)
     else if key = ''endDate'' then Str (endDate fd)
     else if key = ''hasNotes'' then Bool (hasNotes fd)
     else FileVal (uploadedFile fd))"

text \<open>\<^verbatim>\<open>Object.keys(formData)\<close>, in the order of the object literal that creates the state.\<close>

definition Object_keys :: "string list" where
  "Object_keys =
    [''patientId'', ''dob'', ''physicianName'', ''npiNumber'', ''procedureCode'',
     ''startDate'', ''endDate'', ''hasNotes'', ''uploadedFile'']"

text \<open>
  The validator closes over \<^verbatim>\<open>formData\<close> of the current render, that is the state before
  the queued update.
\<close>

definition handleChange :: "(string \<Rightarrow> int option) \<Rightarrow> FormState \<Rightarrow> Target \<Rightarrow> FormState" where
  "handleChange D st target =
    (let newValue = (if type target = ''checkbox'' then Bool (checked target)
                     else Str (value target));
         st1 = st\<lparr>formData := setField (name target) newValue (formData st)\<rparr>
     in if name target \<noteq> ''hasNotes''
        then st1\<lparr>errors := (errors st)(name target \<mapsto>
                    validateField D (formData st) (name target) newValue)\<rparr>
        else st1)"

definition handleBlur :: "(string \<Rightarrow> int option) \<Rightarrow> FormState \<Rightarrow> Target \<Rightarrow> FormState" where
  "handleBlur D st target =
    st\<lparr>errors := (errors st)(name target \<mapsto>
          validateField D (formData st) (name target) (Str (value target)))\<rparr>"

subsection \<open>The attachment\<close>

text \<open>\<^verbatim>\<open>String.prototype.split\<close> with a one-character separator; the result is never empty.\<close>

fun split :: "char \<Rightarrow> string \<Rightarrow> string list" where
  "split sep [] = [[]]"
| "split sep (c # cs) =
    (if c = sep then [] # split sep cs
     else (case split sep cs of [] \<Rightarrow> [[c]] | w # ws \<Rightarrow> (c # w) # ws))"

text \<open>\<^verbatim>\<open>Array.prototype.pop\<close>: the last element, \<^verbatim>\<open>undefined\<close> on an empty array.\<close>

definition pop :: "'a list \<Rightarrow> 'a option" where
  "pop xs = (if xs = [] then None else Some (last xs))"

text \<open>
  \<^verbatim>\<open>toLowerCase\<close> on 8-bit code units: the letters A to Z, and the upper-case letters of
  Latin-1 from 0xC0 to 0xDE without the multiplication sign 0xD7, which lie 32 below their
  lower-case forms. No other 8-bit code unit has a lower-case form of its own.
\<close>

definition toLowerCase :: "string \<Rightarrow> string" where
  "toLowerCase s =
    map (\<lambda>c. case map_of
          (zip (''ABCDEFGHIJKLMNOPQRSTUVWXYZ'' @
           [CHR 0xC0, CHR 0xC1, CHR 0xC2, CHR 0xC3, CHR 0xC4, CHR 0xC5, CHR 0xC6, CHR 0xC7,
            CHR 0xC8, CHR 0xC9, CHR 0xCA, CHR 0xCB, CHR 0xCC, CHR 0xCD, CHR 0xCE, CHR 0xCF,
            CHR 0xD0, CHR 0xD1, CHR 0xD2, CHR 0xD3, CHR 0xD4, CHR 0xD5, CHR 0xD6, CHR 0xD8,
            CHR 0xD9, CHR 0xDA, CHR 0xDB, CHR 0xDC, CHR 0xDD, CHR 0xDE])
           (''abcdefghijklmnopqrstuvwxyz'' @
           [CHR 0xE0, CHR 0xE1, CHR 0xE2, CHR 0xE3, CHR 0xE4, CHR 0xE5, CHR 0xE6, CHR 0xE7,
            CHR 0xE8, CHR 0xE9, CHR 0xEA, CHR 0xEB, CHR 0xEC, CHR 0xED, CHR 0xEE, CHR 0xEF,
            CHR 0xF0, CHR 0xF1, CHR 0xF2, CHR 0xF3, CHR 0xF4, CHR 0xF5, CHR 0xF6, CHR 0xF8,
            CHR 0xF9, CHR 0xFA, CHR 0xFB, CHR 0xFC, CHR 0xFD, CHR 0xFE])) c of
               None \<Rightarrow> c | Some l \<Rightarrow> l) s"

definition allowedTypes :: "string list" where
  "allowedTypes = [''.pdf'', ''.doc'', ''.docx'']"

definition maxSize :: nat where
  "maxSize = 10 * 1024 * 1024"

text \<open>\<^verbatim>\<open>'.' + file.name.split('.').pop()?.toLowerCase()\<close>\<close>

definition fileExt :: "File \<Rightarrow> string" where
  "fileExt file =
    ''.'' @ (case pop (split (CHR ''.'') (file_name file)) of
               None \<Rightarrow> ''undefined'' | Some s \<Rightarrow> toLowerCase s)"

definition handleFileChange :: "FormState \<Rightarrow> File option \<Rightarrow> FormState" where
  "handleFileChange st files0 =
    (case files0 of
       None \<Rightarrow> st
     | Some file \<Rightarrow>
         if fileExt file \<notin> set allowedTypes then
           setToast (Some \<lparr>message = ''Invalid file type. Only PDF, DOC, and DOCX files are allowed.'',
                           kind = error\<rparr>) st
         else if file_size file > maxSize then
           setToast (Some \<lparr>message = ''File too large. Maximum size is 10MB.'', kind = error\<rparr>) st
         else
           setToast (Some \<lparr>message = ''File '' @ [CHR 0x22] @ file_name file @ [CHR 0x22]
                                        @ '' ready to upload.'',
                           kind = success\<rparr>)
             (st\<lparr>formData := (formData st)\<lparr>uploadedFile := Some file, hasNotes := True\<rparr>\<rparr>))"

text \<open>\<^verbatim>\<open>removeFile\<close> also empties the file input of the page, which is not form state.\<close>

definition removeFile :: "FormState \<Rightarrow> FormState" where
  "removeFile st = st\<lparr>formData := (formData st)\<lparr>uploadedFile := None, hasNotes := False\<rparr>\<rparr>"

subsection \<open>Submission\<close>

definition isFormValid_step ::
  "(string \<Rightarrow> int option) \<Rightarrow> FormData \<Rightarrow> FormErrors \<times> bool \<Rightarrow> string \<Rightarrow> FormErrors \<times> bool" where
  "isFormValid_step D fd acc key =
    (if key \<noteq> ''hasNotes'' then
       (let err = validateField D fd key (field fd key)
        in if err \<noteq> '''' then ((fst acc)(key \<mapsto> err), False) else acc)
     else acc)"

text \<open>The checks after the loop: \<^verbatim>\<open>if (!formData.k) { newErrors.k = msg; isValid = false; }\<close>\<close>

definition required :: "string \<Rightarrow> string \<Rightarrow> string \<Rightarrow> FormErrors \<times> bool \<Rightarrow> FormErrors \<times> bool" where
  "required v key msg acc = (if v = '''' then ((fst acc)(key \<mapsto> msg), False) else acc)"

definition isFormValid :: "(string \<Rightarrow> int option) \<Rightarrow> FormData \<Rightarrow> FormErrors \<times> bool" where
  "isFormValid D fd =
    (let a0 = foldl (isFormValid_step D fd) (Map.empty, True) Object_keys;
         a1 = required (patientId fd) ''patientId'' ''Patient ID is required'' a0;
         a2 = required (dob fd) ''dob'' ''Date of Birth is required'' a1;
         a3 = required (physicianName fd) ''physicianName'' ''Physician Name is required'' a2;
         a4 = required (npiNumber fd) ''npiNumber'' ''NPI Number is required'' a3;
         a5 = required (procedureCode fd) ''procedureCode'' ''Procedure Code is required'' a4;
         a6 = required (startDate fd) ''startDate'' ''Start Date is required'' a5;
         a7 = required (endDate fd) ''endDate'' ''End Date is required'' a6
     in a7)"

text \<open>
  \<^verbatim>\<open>handleSubmit\<close> up to its \<^verbatim>\<open>await\<close>: \<^verbatim>\<open>isFormValid()\<close> stores the new error map and
  returns the verdict; a valid form starts the request.
\<close>

definition handleSubmit :: "(string \<Rightarrow> int option) \<Rightarrow> FormState \<Rightarrow> FormState" where
  "handleSubmit D st =
    (let (newErrors, isValid) = isFormValid D (formData st);
         st1 = st\<lparr>errors := newErrors\<rparr>
     in if \<not> isValid then
          setToast (Some \<lparr>message = ''Please fix the validation errors before submitting.'',
                          kind = error\<rparr>) st1
        else (setToast None (st1\<lparr>isSubmitting := True\<rparr>))\<lparr>apiCalls := Suc (apiCalls st1)\<rparr>)"

text \<open>The rest of \<^verbatim>\<open>handleSubmit\<close>, run when the awaited promise settles.\<close>

datatype outcome = resolved | rejected

definition handleSubmit_settled :: "FormState \<Rightarrow> outcome \<Rightarrow> FormState" where
  "handleSubmit_settled st oc =
    (case oc of
       resolved \<Rightarrow>
         setToast (Some \<lparr>message = ''Prior Authorization Request submitted successfully.'',
                         kind = success\<rparr>) (st\<lparr>isSubmitting := False\<rparr>)
     | rejected \<Rightarrow>
         setToast (Some \<lparr>message = ''An error occurred while submitting the request.'',
                         kind = error\<rparr>) (st\<lparr>isSubmitting := False\<rparr>))"

text \<open>
  The form is submitted through \<^verbatim>\<open><Button type="submit" disabled={isSubmitting}>\<close>: a
  disabled button submits nothing, otherwise the form's \<^verbatim>\<open>onSubmit\<close> runs \<^verbatim>\<open>handleSubmit\<close>.
\<close>

definition Button_submit :: "(string \<Rightarrow> int option) \<Rightarrow> FormState \<Rightarrow> FormState" where
  "Button_submit D st = (if isSubmitting st then st else handleSubmit D st)"

section \<open>The date-only form\<close>

text \<open>
  How \<^verbatim>\<open>new Date(string)\<close> reads a string is fixed by ECMAScript only in part. For the
  date-only forms \<^verbatim>\<open>YYYY\<close>, \<^verbatim>\<open>YYYY-MM\<close> and \<^verbatim>\<open>YYYY-MM-DD\<close> of a calendar date the time
  value is midnight UTC of that date (a missing month or day is 01); \<^verbatim>\<open>YYYY-MM-DD\<close> is the
  form of the value of \<^verbatim>\<open><input type="date">\<close>. On other strings engines differ, or the
  result depends on the time zone of the host: a day past the end of the month (V8 rolls it
  over into the next month, other engines reject it), years of more than four digits,
  slashes, months of one digit, date-times without an offset. This is why the parser is
  the parameter \<open>D\<close>, and why statements about all strings are made for every \<open>D\<close>.

  \<open>date_only\<close> reads the date-only forms, and \<open>Date_parse\<close> is the parser that reads these
  forms and nothing else. It stands for \<open>D\<close> only where the strings are of that form, where
  every engine agrees with it.
\<close>

definition number :: "string \<Rightarrow> nat option" where
  "number s =
    (if s \<noteq> [] \<and> list_all (\<lambda>c. c \<in> set ''0123456789'') s
     then Some (foldl (\<lambda>n c. 10 * n + (of_char c - 48)) 0 s) else None)"

definition InLeapYear :: "int \<Rightarrow> bool" where
  "InLeapYear y = (y mod 4 = 0 \<and> (y mod 100 \<noteq> 0 \<or> y mod 400 = 0))"

definition DaysInMonth :: "int \<Rightarrow> nat \<Rightarrow> int" where
  "DaysInMonth y m =
    (if m = 2 then (if InLeapYear y then 29 else 28)
     else if m \<in> {4, 6, 9, 11} then 30 else 31)"

definition DayFromYear :: "int \<Rightarrow> int" where
  "DayFromYear y =
    365 * (y - 1970) + (y - 1969) div 4 - (y - 1901) div 100 + (y - 1601) div 400"

definition MakeDay :: "int \<Rightarrow> nat \<Rightarrow> int \<Rightarrow> int" where
  "MakeDay y m d = DayFromYear y + (\<Sum>k\<leftarrow>[1..<m]. DaysInMonth y k) + (d - 1)"

definition msPerDay :: int where
  "msPerDay = 86400000"

text \<open>A calendar date: year, month and day, with the month and the day in range.\<close>

definition calendar :: "string \<Rightarrow> string \<Rightarrow> string \<Rightarrow> (int \<times> nat \<times> int) option" where
  "calendar ys ms ds =
    (if length ys = 4 \<and> length ms = 2 \<and> length ds = 2 then
       (case (number ys, number ms, number ds) of
          (Some y, Some m, Some d) \<Rightarrow>
            (if 1 \<le> m \<and> m \<le> 12 \<and> 1 \<le> d \<and> int d \<le> DaysInMonth (int y) m
             then Some (int y, m, int d) else None)
        | _ \<Rightarrow> None)
     else None)"

definition date_only :: "string \<Rightarrow> (int \<times> nat \<times> int) option" where
  "date_only s =
    (case split (CHR ''-'') s of
       [ys] \<Rightarrow> calendar ys ''01'' ''01''
     | [ys, ms] \<Rightarrow> calendar ys ms ''01''
     | [ys, ms, ds] \<Rightarrow> calendar ys ms ds
     | _ \<Rightarrow> None)"

definition Date_parse :: "string \<Rightarrow> int option" where
  "Date_parse s =
    (case date_only s of
       None \<Rightarrow> None
     | Some (y, m, d) \<Rightarrow> Some (MakeDay y m d * msPerDay))"

text \<open>The order of the calendar: by year, then month, then day.\<close>

fun earlier :: "int \<times> nat \<times> int \<Rightarrow> int \<times> nat \<times> int \<Rightarrow> bool" where
  "earlier (y, m, d) (y', m', d') = (y < y' \<or> (y = y' \<and> (m < m' \<or> (m = m' \<and> d < d'))))"

section \<open>Notions used in the statements\<close>

text \<open>A hexadecimal digit, by its character code: 0 to 9, A to F, a to f.\<close>

definition hex_digit :: "char \<Rightarrow> bool" where
  "hex_digit c =
    (let n = (of_char c :: nat)
     in (48 \<le> n \<and> n \<le> 57) \<or> (65 \<le> n \<and> n \<le> 70) \<or> (97 \<le> n \<and> n \<le> 102))"

text \<open>What the validator says about the value that a field of the form holds now.\<close>

definition fieldError :: "(string \<Rightarrow> int option) \<Rightarrow> FormData \<Rightarrow> string \<Rightarrow> string" where
  "fieldError D fd key = validateField D fd key (field fd key)"

text \<open>A form in which every field is valid, and the state that holds it.\<close>

definition filledForm :: FormData where
  "filledForm =
    \<lparr>patientId = ''123e4567-e89b-12d3-a456-426614174000'', dob = ''1980-02-29'',
     physicianName = ''Dr. Jane Doe'', npiNumber = ''1234567890'', procedureCode = ''A876'',
     startDate = ''2024-01-01'', endDate = ''2024-01-05'', hasNotes = False,
     uploadedFile = None\<rparr>"

definition filledState :: FormState where
  "filledState = initialState\<lparr>formData := filledForm\<rparr>"

text \<open>A change or blur event of a text, date or select input.\<close>

definition input_event :: "string \<Rightarrow> string \<Rightarrow> Target" where
  "input_event n v = \<lparr>name = n, value = v, type = ''text'', checked = False\<rparr>"

text \<open>Midnight UTC of a calendar date, in milliseconds since the epoch.\<close>

definition UTC_midnight :: "int \<times> nat \<times> int \<Rightarrow> int" where
  "UTC_midnight date = (case date of (y, m, d) \<Rightarrow> MakeDay y m d * msPerDay)"

text \<open>
  Two date-time strings of the ECMAScript format, one second apart on 10 January 2024,
  with the time values that every engine gives them (the \<^verbatim>\<open>Z\<close> fixes UTC).
\<close>

definition instants :: "string \<Rightarrow> int option" where
  "instants =
    map_of [(''2024-01-10T00:00:00Z'', 1704844800000), (''2024-01-10T00:00:01Z'', 1704844801000)]"

text \<open>
  The extension of a file name in the usual sense: the part from its last dot on. A name
  without a dot has no extension. An extension is allowed when, in lower case, it is one
  of \<^verbatim>\<open>.pdf\<close>, \<^verbatim>\<open>.doc\<close> and \<^verbatim>\<open>.docx\<close>.
\<close>

definition name_extension :: "string \<Rightarrow> string option" where
  "name_extension n =
    (if CHR ''.'' \<in> set n
     then Some (CHR ''.'' # rev (takeWhile (\<lambda>c. c \<noteq> CHR ''.'') (rev n)))
     else None)"

definition allowed_extension :: "string \<Rightarrow> bool" where
  "allowed_extension n =
    (case name_extension n of
       None \<Rightarrow> False
     | Some e \<Rightarrow> toLowerCase e \<in> {''.pdf'', ''.doc'', ''.docx''})"

text \<open>
  The states that the handlers reach from the initial state, when \<^verbatim>\<open>handleChange\<close> is
  called for any field but the two that hold the attachment, \<^verbatim>\<open>hasNotes\<close> and
  \<^verbatim>\<open>uploadedFile\<close>.
\<close>

inductive reachable :: "(string \<Rightarrow> int option) \<Rightarrow> FormState \<Rightarrow> bool" for D where
  reachable_initial: "reachable D initialState"
| reachable_handleChange:
    "reachable D st \<Longrightarrow> name target \<noteq> ''hasNotes'' \<Longrightarrow> name target \<noteq> ''uploadedFile''
      \<Longrightarrow> reachable D (handleChange D st target)"
| reachable_handleBlur: "reachable D st \<Longrightarrow> reachable D (handleBlur D st target)"
| reachable_handleFileChange: "reachable D st \<Longrightarrow> reachable D (handleFileChange st files0)"
| reachable_removeFile: "reachable D st \<Longrightarrow> reachable D (removeFile st)"
| reachable_handleSubmit: "reachable D st \<Longrightarrow> reachable D (handleSubmit D st)"
| reachable_settled: "reachable D st \<Longrightarrow> reachable D (handleSubmit_settled st oc)"

section \<open>The validator on patientId and procedureCode\<close>

lemma hex_codes:
  "map of_char ''0123456789ABCDEFabcdef'' =
    [48, 49, 50, 51, 52, 53, 54, 55, 56, 57, 65, 66, 67, 68, 69, 70, 97, 98, 99, 100, 101, 102 :: nat]"
  by simp

lemma hex_ranges:
  "48 \<le> n \<and> n \<le> 57 \<or> 65 \<le> n \<and> n \<le> 70 \<or> 97 \<le> n \<and> n \<le> 102 \<Longrightarrow>
    (n::nat) \<in> set [48, 49, 50, 51, 52, 53, 54, 55, 56, 57, 65, 66, 67, 68, 69, 70, 97, 98, 99, 100, 101, 102]"
  by (simp; arith)

lemma hex_digit_in_class:
  assumes "hex_digit c"
  shows "c \<in> set ''0123456789ABCDEFabcdef''"
proof -
  from assms have "(of_char c :: nat) \<in> set (map of_char ''0123456789ABCDEFabcdef'')"
    unfolding hex_digit_def Let_def hex_codes by (rule hex_ranges)
  then have "(of_char c :: nat) \<in> of_char ` set ''0123456789ABCDEFabcdef''"
    by (simp only: set_map)
  then obtain d where d: "d \<in> set ''0123456789ABCDEFabcdef''" "(of_char c :: nat) = of_char d"
    by blast
  from d(2) have "c = d" by (simp only: of_char_eq_iff)
  with d(1) show ?thesis by simp
qed

lemma class_hex_digit: "c \<in> set ''0123456789abcdefABCDEF-'' \<Longrightarrow> hex_digit c \<or> c = CHR ''-''"
  by (auto simp: hex_digit_def)

lemma class_iff: "c \<in> set ''0123456789abcdefABCDEF-'' \<longleftrightarrow> hex_digit c \<or> c = CHR ''-''"
proof
  assume "c \<in> set ''0123456789abcdefABCDEF-''"
  then show "hex_digit c \<or> c = CHR ''-''" by (rule class_hex_digit)
next
  assume "hex_digit c \<or> c = CHR ''-''"
  then show "c \<in> set ''0123456789abcdefABCDEF-''"
  proof
    assume "hex_digit c"
    then have "c \<in> set ''0123456789ABCDEFabcdef''" by (rule hex_digit_in_class)
    then show ?thesis by auto
  next
    assume "c = CHR ''-''"
    then show ?thesis by simp
  qed
qed

lemma test_uuid_iff:
  "test_uuid s \<longleftrightarrow> length s = 36 \<and> (\<forall>c\<in>set s. hex_digit c \<or> c = CHR ''-'')"
  unfolding test_uuid_def list_all_iff by (simp only: class_iff)

text \<open>
  C5, as the code has it. Validating \<^verbatim>\<open>patientId\<close> gives \<^verbatim>\<open>Patient ID is required\<close> for the
  empty string, no error for a string of exactly 36 characters that are hexadecimal
  digits or hyphens, and for every other string the reason
  \<^verbatim>\<open>Invalid UUID format (e.g., 123e4567-e89b-12d3-a456-426614174000)\<close>: the reason carries
  an example and is not the bare \<^verbatim>\<open>Invalid UUID format\<close>.
\<close>

theorem validateField_patientId:
  "validateField D fd ''patientId'' (Str v) =
     (if v = '''' then ''Patient ID is required''
      else if length v = 36 \<and> (\<forall>c\<in>set v. hex_digit c \<or> c = CHR ''-'') then ''''
      else ''Invalid UUID format (e.g., 123e4567-e89b-12d3-a456-426614174000)'')"
proof -
  have "validateField D fd ''patientId'' (Str v) =
     (if v = '''' then ''Patient ID is required''
      else if test_uuid v then ''''
      else ''Invalid UUID format (e.g., 123e4567-e89b-12d3-a456-426614174000)'')"
    by (simp add: validateField_def length_gt_def)
  then show ?thesis by (simp only: test_uuid_iff)
qed

theorem validateField_patientId_witness:
  "validateField Date_parse initialFormData ''patientId''
      (Str ''123e4567-e89b-12d3-a456-426614174000'') = ''''
   \<and> validateField Date_parse initialFormData ''patientId'' (Str ''123e4567'')
      = ''Invalid UUID format (e.g., 123e4567-e89b-12d3-a456-426614174000)''
   \<and> validateField Date_parse initialFormData ''patientId'' (Str '''') = ''Patient ID is required''"
  using validateField_patientId [of Date_parse initialFormData "''123e4567-e89b-12d3-a456-426614174000''"]
    validateField_patientId [of Date_parse initialFormData "''123e4567''"]
    validateField_patientId [of Date_parse initialFormData "''''"]
  by (simp add: hex_digit_def)

text \<open>The reason for a malformed identifier is not the string \<^verbatim>\<open>Invalid UUID format\<close>.\<close>

theorem validateField_patientId_counterexample:
  "validateField Date_parse initialFormData ''patientId'' (Str ''123e4567'') \<noteq> ''Invalid UUID format''"
  by (simp add: validateField_def test_uuid_def length_gt_def)

text \<open>
  C6, as the code has it. Validating \<^verbatim>\<open>procedureCode\<close> rejects the empty placeholder value
  with \<^verbatim>\<open>Procedure Code is required\<close> and accepts every non-empty string; it does not
  look the value up in \<^verbatim>\<open>PROCEDURE_CODES\<close>. Of the configured values, the placeholder is
  rejected and the four codes are accepted.
\<close>

theorem validateField_procedureCode:
  "validateField D fd ''procedureCode'' (Str v) =
     (if v = '''' then ''Procedure Code is required'' else '''')
   \<and> map (\<lambda>code. validateField D fd ''procedureCode'' (Str (fst code))) PROCEDURE_CODES
       = [''Procedure Code is required'', '''', '''', '''', '''']"
  by (simp add: validateField_def PROCEDURE_CODES_def)

text \<open>A string that is none of the configured codes passes the validator.\<close>

theorem validateField_procedureCode_counterexample:
  "''ZZZZ'' \<notin> fst ` set PROCEDURE_CODES
   \<and> validateField Date_parse initialFormData ''procedureCode'' (Str ''ZZZZ'') = ''''"
  by (simp add: validateField_def PROCEDURE_CODES_def)

section \<open>Changing the start date\<close>

text \<open>
  C1, as the code has it. \<^verbatim>\<open>handleChange\<close> for \<^verbatim>\<open>startDate\<close> runs the validator for
  \<^verbatim>\<open>startDate\<close> alone: it stores that result under \<^verbatim>\<open>startDate\<close> and leaves the entry of
  \<^verbatim>\<open>endDate\<close> in the error map as it was, whatever \<^verbatim>\<open>endDate\<close> holds.
\<close>

theorem handleChange_startDate:
  "name target = ''startDate'' \<Longrightarrow> type target \<noteq> ''checkbox'' \<Longrightarrow>
     errors (handleChange D st target) ''endDate'' = errors st ''endDate''
     \<and> errors (handleChange D st target) ''startDate''
         = Some (validateField D (formData st) ''startDate'' (Str (value target)))
     \<and> startDate (formData (handleChange D st target)) = value target"
  by (simp add: handleChange_def Let_def setField_def)

theorem handleChange_startDate_witness:
  "errors (handleChange Date_parse
            (handleChange Date_parse
              (handleChange Date_parse initialState (input_event ''endDate'' ''2024-01-05''))
              (input_event ''startDate'' ''2024-01-01''))
            (input_event ''startDate'' ''2024-01-10'')) ''endDate''
   = errors (handleChange Date_parse
              (handleChange Date_parse initialState (input_event ''endDate'' ''2024-01-05''))
              (input_event ''startDate'' ''2024-01-01'')) ''endDate''"
  using handleChange_startDate [of "input_event ''startDate'' ''2024-01-10''" Date_parse
      "handleChange Date_parse
         (handleChange Date_parse initialState (input_event ''endDate'' ''2024-01-05''))
         (input_event ''startDate'' ''2024-01-01'')"]
  by (simp add: input_event_def)

text \<open>
  After end = 2024-01-05, start = 2024-01-01 and then start = 2024-01-10, the error map
  still holds the empty string for \<^verbatim>\<open>endDate\<close>, although the validator now rejects the end
  date that the form holds.
\<close>

theorem handleChange_startDate_counterexample:
  "errors (handleChange Date_parse
            (handleChange Date_parse
              (handleChange Date_parse initialState (input_event ''endDate'' ''2024-01-05''))
              (input_event ''startDate'' ''2024-01-01''))
            (input_event ''startDate'' ''2024-01-10'')) ''endDate'' = Some ''''
   \<and> fieldError Date_parse (formData (handleChange Date_parse
            (handleChange Date_parse
              (handleChange Date_parse initialState (input_event ''endDate'' ''2024-01-05''))
              (input_event ''startDate'' ''2024-01-01''))
            (input_event ''startDate'' ''2024-01-10''))) ''endDate''
       = ''End Date cannot be before Start Date''"
  by (simp add: handleChange_def input_event_def initialState_def initialFormData_def
      setField_def validateField_def fieldError_def field_def Let_def,
      code_simp)

section \<open>The attachment and the flag hasNotes\<close>

lemma setField_attachment:
  "key \<noteq> ''hasNotes'' \<Longrightarrow> key \<noteq> ''uploadedFile'' \<Longrightarrow>
     hasNotes (setField key v fd) = hasNotes fd \<and> uploadedFile (setField key v fd) = uploadedFile fd"
  by (simp add: setField_def split: val.split)

lemma formData_handleChange:
  "formData (handleChange D st target) =
     setField (name target) (if type target = ''checkbox'' then Bool (checked target) else Str (value target)) (formData st)"
  by (simp add: handleChange_def Let_def)

lemma formData_handleBlur: "formData (handleBlur D st target) = formData st"
  by (simp add: handleBlur_def)

lemma formData_handleSubmit: "formData (handleSubmit D st) = formData st"
  by (simp add: handleSubmit_def setToast_def Let_def split: prod.split)

lemma formData_settled: "formData (handleSubmit_settled st oc) = formData st"
  by (simp add: handleSubmit_settled_def setToast_def split: outcome.split)

lemma attachment_handleFileChange:
  "hasNotes (formData st) = (uploadedFile (formData st) \<noteq> None) \<Longrightarrow>
   hasNotes (formData (handleFileChange st files0)) = (uploadedFile (formData (handleFileChange st files0)) \<noteq> None)"
  by (simp add: handleFileChange_def setToast_def split: option.split)

text \<open>
  C4, as the code has it. In every state reached from the initial state through
  \<^verbatim>\<open>handleChange\<close> on any field other than \<^verbatim>\<open>hasNotes\<close> and \<^verbatim>\<open>uploadedFile\<close>, through
  \<^verbatim>\<open>handleBlur\<close>, \<^verbatim>\<open>handleFileChange\<close>, \<^verbatim>\<open>removeFile\<close>, \<^verbatim>\<open>handleSubmit\<close> and the
  completion of a submission, \<^verbatim>\<open>hasNotes\<close> is true exactly when \<^verbatim>\<open>uploadedFile\<close> is not
  null. \<^verbatim>\<open>handleChange\<close> for the name \<^verbatim>\<open>hasNotes\<close> is not among these steps: it stores the
  checkbox in the flag and leaves the attachment alone.
\<close>

theorem reachable_hasNotes:
  "reachable D st \<Longrightarrow> hasNotes (formData st) = (uploadedFile (formData st) \<noteq> None)"
proof (induction rule: reachable.induct)
  case reachable_initial
  show ?case by (simp add: initialState_def initialFormData_def)
next
  case (reachable_handleChange st target)
  then show ?case by (simp add: formData_handleChange setField_attachment)
next
  case (reachable_handleBlur st target)
  then show ?case by (simp add: formData_handleBlur)
next
  case (reachable_handleFileChange st files0)
  from reachable_handleFileChange.IH show ?case by (rule attachment_handleFileChange)
next
  case (reachable_removeFile st)
  show ?case by (simp add: removeFile_def)
next
  case (reachable_handleSubmit st)
  then show ?case by (simp add: formData_handleSubmit)
next
  case (reachable_settled st oc)
  then show ?case by (simp add: formData_settled)
qed

theorem reachable_hasNotes_witness:
  "reachable Date_parse
     (removeFile (handleFileChange (handleChange Date_parse initialState (input_event ''dob'' ''1980-02-29''))
        (Some \<lparr>file_name = ''notes.pdf'', file_size = 500000\<rparr>)))
   \<and> hasNotes (formData (handleFileChange (handleChange Date_parse initialState (input_event ''dob'' ''1980-02-29''))
        (Some \<lparr>file_name = ''notes.pdf'', file_size = 500000\<rparr>)))
   \<and> uploadedFile (formData (handleFileChange (handleChange Date_parse initialState (input_event ''dob'' ''1980-02-29''))
        (Some \<lparr>file_name = ''notes.pdf'', file_size = 500000\<rparr>))) \<noteq> None
   \<and> \<not> hasNotes (formData (removeFile (handleFileChange (handleChange Date_parse initialState (input_event ''dob'' ''1980-02-29''))
        (Some \<lparr>file_name = ''notes.pdf'', file_size = 500000\<rparr>))))"
proof -
  have r1: "reachable Date_parse (handleChange Date_parse initialState (input_event ''dob'' ''1980-02-29''))"
    by (rule reachable_handleChange [OF reachable_initial]) (simp_all add: input_event_def)
  have r2: "reachable Date_parse (handleFileChange (handleChange Date_parse initialState (input_event ''dob'' ''1980-02-29''))
        (Some \<lparr>file_name = ''notes.pdf'', file_size = 500000\<rparr>))"
    by (rule reachable_handleFileChange [OF r1])
  have r3: "reachable Date_parse (removeFile (handleFileChange (handleChange Date_parse initialState (input_event ''dob'' ''1980-02-29''))
        (Some \<lparr>file_name = ''notes.pdf'', file_size = 500000\<rparr>)))"
    by (rule reachable_removeFile [OF r2])
  have u: "uploadedFile (formData (handleFileChange (handleChange Date_parse initialState (input_event ''dob'' ''1980-02-29''))
        (Some \<lparr>file_name = ''notes.pdf'', file_size = 500000\<rparr>))) \<noteq> None"
    by (simp add: handleFileChange_def setToast_def fileExt_def pop_def toLowerCase_def allowedTypes_def maxSize_def)
  have v: "uploadedFile (formData (removeFile s)) = None" for s
    by (simp add: removeFile_def)
  show ?thesis
    using r3 u v reachable_hasNotes [OF r2] reachable_hasNotes [OF r3] by simp
qed

text \<open>
  A change event of a checkbox named \<^verbatim>\<open>hasNotes\<close>, as the form of
  \<^verbatim>\<open>src/ClaimSubmissionForm.tsx\<close> renders it, sets the flag while no file is attached.
\<close>

theorem handleChange_hasNotes_counterexample:
  "hasNotes (formData (handleChange Date_parse initialState
       \<lparr>name = ''hasNotes'', value = ''on'', type = ''checkbox'', checked = True\<rparr>))
   \<and> uploadedFile (formData (handleChange Date_parse initialState
       \<lparr>name = ''hasNotes'', value = ''on'', type = ''checkbox'', checked = True\<rparr>)) = None"
  by (simp add: handleChange_def setField_def initialState_def initialFormData_def)

section \<open>Submitting twice\<close>

lemma isFormValid_filledForm: "isFormValid Date_parse filledForm = (Map.empty, True)"
  by (simp add: isFormValid_def Object_keys_def isFormValid_step_def required_def filledForm_def
      field_def validateField_def test_uuid_def test_npi_def length_gt_def length_lt_def Let_def, code_simp)

text \<open>
  C2, as the code has it. The guard against a second submission is the submit button,
  which is disabled while \<^verbatim>\<open>isSubmitting\<close> holds: a submission through the button in that
  state changes nothing, so a valid form submitted twice through the button starts the
  request once. \<^verbatim>\<open>handleSubmit\<close> itself does not read \<^verbatim>\<open>isSubmitting\<close>: whenever the form
  is valid it starts the request.
\<close>

theorem Button_submit_gate:
  "(isSubmitting st \<longrightarrow> Button_submit D st = st)
   \<and> (\<not> isSubmitting st \<and> snd (isFormValid D (formData st)) \<longrightarrow>
        isSubmitting (Button_submit D st)
        \<and> apiCalls (Button_submit D st) = Suc (apiCalls st)
        \<and> Button_submit D (Button_submit D st) = Button_submit D st)
   \<and> (snd (isFormValid D (formData st)) \<longrightarrow>
        isSubmitting (handleSubmit D st) \<and> apiCalls (handleSubmit D st) = Suc (apiCalls st))"
  by (simp add: Button_submit_def handleSubmit_def setToast_def Let_def split: prod.split)

theorem Button_submit_gate_witness:
  "isSubmitting (Button_submit Date_parse filledState)
   \<and> apiCalls (Button_submit Date_parse filledState) = 1
   \<and> apiCalls (Button_submit Date_parse (Button_submit Date_parse filledState)) = 1"
  using Button_submit_gate [of filledState Date_parse]
    Button_submit_gate [of "Button_submit Date_parse filledState" Date_parse]
  by (simp add: filledState_def initialState_def isFormValid_filledForm)

text \<open>
  Called a second time while the first request is pending, \<^verbatim>\<open>handleSubmit\<close> starts a
  second request.
\<close>

theorem handleSubmit_reentry_counterexample:
  "isSubmitting (handleSubmit Date_parse filledState)
   \<and> apiCalls (handleSubmit Date_parse filledState) = 1
   \<and> apiCalls (handleSubmit Date_parse (handleSubmit Date_parse filledState)) = 2"
  by (simp add: handleSubmit_def setToast_def filledState_def initialState_def isFormValid_filledForm)

section \<open>Accepting and rejecting a file\<close>

lemma split_not_Nil: "split sep s \<noteq> []"
  by (induction s) (auto split: list.split)

lemma split_no_sep: "sep \<notin> set s \<Longrightarrow> split sep s = [s]"
  by (induction s) auto

lemma split_append:
  "sep \<notin> set e \<Longrightarrow> \<exists>w ws. split sep (stem @ sep # e) = w # ws @ [e]"
proof (induction stem)
  case Nil
  then show ?case by (simp add: split_no_sep)
next
  case (Cons a stem)
  then obtain w ws where "split sep (stem @ sep # e) = w # ws @ [e]" by blast
  then show ?case by (cases "a = sep") auto
qed

lemma last_split_append:
  "sep \<notin> set e \<Longrightarrow> last (split sep (stem @ sep # e)) = e"
  using split_append [of sep e stem] by auto

lemma fileExt_dotless:
  "CHR ''.'' \<notin> set (file_name f) \<Longrightarrow> fileExt f = ''.'' @ toLowerCase (file_name f)"
  by (simp add: fileExt_def pop_def split_no_sep)

lemma last_split_is_suffix:
  assumes "CHR ''.'' \<in> set n"
  shows "last (split (CHR ''.'') n) = rev (takeWhile (\<lambda>c. c \<noteq> CHR ''.'') (rev n))"
proof -
  from assms obtain stem e where n: "n = stem @ CHR ''.'' # e" and e: "CHR ''.'' \<notin> set e"
    by (auto dest: split_list_last)
  have "takeWhile (\<lambda>c. c \<noteq> CHR ''.'') (rev e @ CHR ''.'' # rev stem)
      = rev e @ takeWhile (\<lambda>c. c \<noteq> CHR ''.'') (CHR ''.'' # rev stem)"
    using e by (intro takeWhile_append2) auto
  then have "takeWhile (\<lambda>c. c \<noteq> CHR ''.'') (rev e @ CHR ''.'' # rev stem) = rev e"
    by simp
  then have "rev (takeWhile (\<lambda>c. c \<noteq> CHR ''.'') (rev n)) = e"
    by (simp add: n)
  moreover have "last (split (CHR ''.'') n) = e"
    unfolding n using e by (rule last_split_append)
  ultimately show ?thesis by simp
qed

lemma toLowerCase_Cons_dot: "toLowerCase (CHR ''.'' # s) = CHR ''.'' # toLowerCase s"
  by (simp add: toLowerCase_def)

lemma fileExt_name_extension:
  "name_extension (file_name file) = Some e \<Longrightarrow> fileExt file = toLowerCase e"
  by (auto simp: name_extension_def fileExt_def pop_def split_not_Nil last_split_is_suffix
      toLowerCase_Cons_dot split: if_splits)

text \<open>
  For a name with a dot the code's extension is the extension of the name, in lower case:
  such a file is accepted, that is stored in \<^verbatim>\<open>uploadedFile\<close> with \<^verbatim>\<open>hasNotes\<close> set and the
  success notification emitted, exactly when its extension is allowed and its size is at
  most 10 * 1024 * 1024 bytes.
\<close>

lemma handleFileChange_accepts_dotted:
  assumes "CHR ''.'' \<in> set (file_name file)"
  shows "(uploadedFile (formData (handleFileChange st (Some file))) = Some file
      \<and> hasNotes (formData (handleFileChange st (Some file)))
      \<and> toast (handleFileChange st (Some file))
          = Some \<lparr>message = ''File '' @ [CHR 0x22] @ file_name file @ [CHR 0x22] @ '' ready to upload.'',
                   kind = success\<rparr>)
     = (allowed_extension (file_name file) \<and> file_size file \<le> 10 * 1024 * 1024)"
proof -
  from assms obtain e where e: "name_extension (file_name file) = Some e"
    by (simp add: name_extension_def)
  have x: "fileExt file = toLowerCase e" using e by (rule fileExt_name_extension)
  show ?thesis
    by (auto simp: handleFileChange_def setToast_def allowedTypes_def maxSize_def
        allowed_extension_def e x)
qed

lemma handleFileChange_examples:
  "uploadedFile (formData (handleFileChange initialState (Some \<lparr>file_name = ''notes.pdf'', file_size = 500000\<rparr>)))
     = Some \<lparr>file_name = ''notes.pdf'', file_size = 500000\<rparr>"
  "hasNotes (formData (handleFileChange initialState (Some \<lparr>file_name = ''notes.pdf'', file_size = 500000\<rparr>)))"
  "uploadedFile (formData (handleFileChange initialState (Some \<lparr>file_name = ''notes.pdf'', file_size = 11000000\<rparr>)))
     = None"
  "toast (handleFileChange st (Some \<lparr>file_name = ''notes.exe'', file_size = n\<rparr>))
     = Some \<lparr>message = ''Invalid file type. Only PDF, DOC, and DOCX files are allowed.'', kind = error\<rparr>"
  "allowed_extension ''Scan.2024.DocX''"
  by (simp_all add: handleFileChange_def setToast_def allowedTypes_def maxSize_def fileExt_def
      pop_def toLowerCase_def initialState_def initialFormData_def allowed_extension_def
      name_extension_def)



text \<open>
  A name without a dot is its own extension: such a file passes the type check exactly
  when its whole name, in lower case, is \<^verbatim>\<open>pdf\<close>, \<^verbatim>\<open>doc\<close> or \<^verbatim>\<open>docx\<close>.
\<close>

lemma fileExt_dotless_allowed:
  "CHR ''.'' \<notin> set (file_name file) \<Longrightarrow>
     (fileExt file \<in> set allowedTypes) = (toLowerCase (file_name file) \<in> {''pdf'', ''doc'', ''docx''})"
  by (simp add: allowedTypes_def fileExt_dotless)

text \<open>
  C10 says that a file whose name has no dot is always rejected as a wrong type. The
  code accepts the file named \<^verbatim>\<open>pdf\<close> of 100 bytes: it attaches it, sets \<^verbatim>\<open>hasNotes\<close> and
  emits the success notification.
\<close>

theorem handleFileChange_dotless_pdf:
  "CHR ''.'' \<notin> set ''pdf''
   \<and> uploadedFile (formData (handleFileChange initialState (Some \<lparr>file_name = ''pdf'', file_size = 100\<rparr>)))
       = Some \<lparr>file_name = ''pdf'', file_size = 100\<rparr>
   \<and> hasNotes (formData (handleFileChange initialState (Some \<lparr>file_name = ''pdf'', file_size = 100\<rparr>)))
   \<and> toast (handleFileChange initialState (Some \<lparr>file_name = ''pdf'', file_size = 100\<rparr>))
       = Some \<lparr>message = ''File '' @ [CHR 0x22] @ ''pdf'' @ [CHR 0x22] @ '' ready to upload.'', kind = success\<rparr>"
  by (simp add: handleFileChange_def setToast_def allowedTypes_def maxSize_def fileExt_def pop_def
      toLowerCase_def)

text \<open>
  C8 says that a file is accepted exactly when its extension is in the allow-set and its
  size is within the ceiling. The file named \<^verbatim>\<open>DOC\<close> of 10485760 bytes has no extension,
  and the code accepts it: it attaches it, sets \<^verbatim>\<open>hasNotes\<close> and emits the success
  notification. It is the defect of C10, a name without a dot taken for its own extension.
\<close>

theorem handleFileChange_accepts_no_extension:
  "name_extension ''DOC'' = None
   \<and> \<not> allowed_extension ''DOC''
   \<and> uploadedFile (formData (handleFileChange initialState
        (Some \<lparr>file_name = ''DOC'', file_size = 10485760\<rparr>)))
       = Some \<lparr>file_name = ''DOC'', file_size = 10485760\<rparr>
   \<and> hasNotes (formData (handleFileChange initialState
        (Some \<lparr>file_name = ''DOC'', file_size = 10485760\<rparr>)))
   \<and> notifications (handleFileChange initialState
        (Some \<lparr>file_name = ''DOC'', file_size = 10485760\<rparr>))
       = [\<lparr>message = ''File '' @ [CHR 0x22] @ ''DOC'' @ [CHR 0x22] @ '' ready to upload.'',
           kind = success\<rparr>]"
  by (simp add: name_extension_def allowed_extension_def handleFileChange_def setToast_def
      allowedTypes_def maxSize_def fileExt_def pop_def toLowerCase_def initialState_def)

section \<open>Submitting an invalid form\<close>

lemma isFormValid_step_fieldError:
  "isFormValid_step D fd acc key =
     (if key \<noteq> ''hasNotes'' \<and> fieldError D fd key \<noteq> ''''
      then ((fst acc)(key \<mapsto> fieldError D fd key), False) else acc)"
  by (simp add: isFormValid_step_def fieldError_def Let_def)

lemma loop_fst:
  "fst (foldl (isFormValid_step D fd) acc ks) k =
     (if k \<in> set ks \<and> k \<noteq> ''hasNotes'' \<and> fieldError D fd k \<noteq> ''''
      then Some (fieldError D fd k) else fst acc k)"
  by (induction ks arbitrary: acc) (simp_all add: isFormValid_step_fieldError)

lemma loop_snd:
  "snd (foldl (isFormValid_step D fd) acc ks) =
     (snd acc \<and> (\<forall>k\<in>set ks. k \<noteq> ''hasNotes'' \<longrightarrow> fieldError D fd k = ''''))"
  by (induction ks arbitrary: acc) (auto simp add: isFormValid_step_fieldError)

lemma required_fst:
  "fst (required v key msg acc) k = (if v = '''' \<and> k = key then Some msg else fst acc k)"
  by (simp add: required_def)

lemma required_snd: "snd (required v key msg acc) = (snd acc \<and> v \<noteq> '''')"
  by (simp add: required_def)

lemma fieldError_empty:
  "patientId fd = '''' \<Longrightarrow> fieldError D fd ''patientId'' = ''Patient ID is required''"
  "dob fd = '''' \<Longrightarrow> fieldError D fd ''dob'' = ''Date of Birth is required''"
  "physicianName fd = '''' \<Longrightarrow> fieldError D fd ''physicianName'' = ''Physician Name is required''"
  "npiNumber fd = '''' \<Longrightarrow> fieldError D fd ''npiNumber'' = ''NPI Number is required''"
  "procedureCode fd = '''' \<Longrightarrow> fieldError D fd ''procedureCode'' = ''Procedure Code is required''"
  "startDate fd = '''' \<Longrightarrow> fieldError D fd ''startDate'' = ''Start Date is required''"
  "endDate fd = '''' \<Longrightarrow> fieldError D fd ''endDate'' = ''End Date is required''"
  by (simp_all add: fieldError_def field_def validateField_def)

lemma Object_keys_mem:
  "''patientId'' \<in> set Object_keys" "''dob'' \<in> set Object_keys"
  "''physicianName'' \<in> set Object_keys" "''npiNumber'' \<in> set Object_keys"
  "''procedureCode'' \<in> set Object_keys" "''startDate'' \<in> set Object_keys"
  "''endDate'' \<in> set Object_keys"
  by (simp_all add: Object_keys_def)

lemma required_keeps:
  assumes "\<forall>k. fst acc k =
             (if k \<in> set Object_keys \<and> k \<noteq> ''hasNotes'' \<and> fieldError D fd k \<noteq> ''''
              then Some (fieldError D fd k) else None)"
    and "key \<in> set Object_keys" and "key \<noteq> ''hasNotes''" and "msg \<noteq> ''''"
    and "v = '''' \<Longrightarrow> fieldError D fd key = msg"
  shows "\<forall>k. fst (required v key msg acc) k =
             (if k \<in> set Object_keys \<and> k \<noteq> ''hasNotes'' \<and> fieldError D fd k \<noteq> ''''
              then Some (fieldError D fd k) else None)"
proof (cases "v = ''''")
  case True
  with assms(5) have m: "fieldError D fd key = msg" by simp
  show ?thesis
  proof
    fix k
    show "fst (required v key msg acc) k =
             (if k \<in> set Object_keys \<and> k \<noteq> ''hasNotes'' \<and> fieldError D fd k \<noteq> ''''
              then Some (fieldError D fd k) else None)"
    proof (cases "k = key")
      case True
      with assms(2,3,4) m \<open>v = ''''\<close> show ?thesis by (simp add: required_def)
    next
      case False
      with assms(1) show ?thesis by (simp add: required_def)
    qed
  qed
next
  case False
  with assms(1) show ?thesis by (simp add: required_def)
qed

lemma isFormValid_fst:
  "fst (isFormValid D fd) k =
     (if k \<in> set Object_keys \<and> k \<noteq> ''hasNotes'' \<and> fieldError D fd k \<noteq> ''''
      then Some (fieldError D fd k) else None)"
proof -
  let ?G = "\<lambda>acc. \<forall>k. fst acc k =
             (if k \<in> set Object_keys \<and> k \<noteq> ''hasNotes'' \<and> fieldError D fd k \<noteq> ''''
              then Some (fieldError D fd k) else None)"
  define a0 where "a0 = foldl (isFormValid_step D fd) (Map.empty, True) Object_keys"
  define a1 where "a1 = required (patientId fd) ''patientId'' ''Patient ID is required'' a0"
  define a2 where "a2 = required (dob fd) ''dob'' ''Date of Birth is required'' a1"
  define a3 where "a3 = required (physicianName fd) ''physicianName'' ''Physician Name is required'' a2"
  define a4 where "a4 = required (npiNumber fd) ''npiNumber'' ''NPI Number is required'' a3"
  define a5 where "a5 = required (procedureCode fd) ''procedureCode'' ''Procedure Code is required'' a4"
  define a6 where "a6 = required (startDate fd) ''startDate'' ''Start Date is required'' a5"
  define a7 where "a7 = required (endDate fd) ''endDate'' ''End Date is required'' a6"
  have "?G a0" unfolding a0_def by (simp add: loop_fst)
  then have "?G a1" unfolding a1_def
    by (rule required_keeps) (simp_all add: Object_keys_mem fieldError_empty)
  then have "?G a2" unfolding a2_def
    by (rule required_keeps) (simp_all add: Object_keys_mem fieldError_empty)
  then have "?G a3" unfolding a3_def
    by (rule required_keeps) (simp_all add: Object_keys_mem fieldError_empty)
  then have "?G a4" unfolding a4_def
    by (rule required_keeps) (simp_all add: Object_keys_mem fieldError_empty)
  then have "?G a5" unfolding a5_def
    by (rule required_keeps) (simp_all add: Object_keys_mem fieldError_empty)
  then have "?G a6" unfolding a6_def
    by (rule required_keeps) (simp_all add: Object_keys_mem fieldError_empty)
  then have "?G a7" unfolding a7_def
    by (rule required_keeps) (simp_all add: Object_keys_mem fieldError_empty)
  moreover have "isFormValid D fd = a7"
    by (simp add: isFormValid_def Let_def a0_def a1_def a2_def a3_def a4_def a5_def a6_def a7_def)
  ultimately show ?thesis by simp
qed

lemma fieldError_nonempty:
  "fieldError D fd ''patientId'' = '''' \<Longrightarrow> patientId fd \<noteq> ''''"
  "fieldError D fd ''dob'' = '''' \<Longrightarrow> dob fd \<noteq> ''''"
  "fieldError D fd ''physicianName'' = '''' \<Longrightarrow> physicianName fd \<noteq> ''''"
  "fieldError D fd ''npiNumber'' = '''' \<Longrightarrow> npiNumber fd \<noteq> ''''"
  "fieldError D fd ''procedureCode'' = '''' \<Longrightarrow> procedureCode fd \<noteq> ''''"
  "fieldError D fd ''startDate'' = '''' \<Longrightarrow> startDate fd \<noteq> ''''"
  "fieldError D fd ''endDate'' = '''' \<Longrightarrow> endDate fd \<noteq> ''''"
  using fieldError_empty [of fd D] by auto

lemma isFormValid_snd:
  "snd (isFormValid D fd) =
     (\<forall>k\<in>set Object_keys. k \<noteq> ''hasNotes'' \<longrightarrow> fieldError D fd k = '''')"
proof -
  have "snd (isFormValid D fd) =
     ((\<forall>k\<in>set Object_keys. k \<noteq> ''hasNotes'' \<longrightarrow> fieldError D fd k = '''')
      \<and> patientId fd \<noteq> '''' \<and> dob fd \<noteq> '''' \<and> physicianName fd \<noteq> '''' \<and> npiNumber fd \<noteq> ''''
      \<and> procedureCode fd \<noteq> '''' \<and> startDate fd \<noteq> '''' \<and> endDate fd \<noteq> '''')"
    unfolding isFormValid_def Let_def required_snd loop_snd by simp
  moreover have "patientId fd \<noteq> '''' \<and> dob fd \<noteq> '''' \<and> physicianName fd \<noteq> '''' \<and> npiNumber fd \<noteq> ''''
      \<and> procedureCode fd \<noteq> '''' \<and> startDate fd \<noteq> '''' \<and> endDate fd \<noteq> ''''"
    if a: "\<forall>k\<in>set Object_keys. k \<noteq> ''hasNotes'' \<longrightarrow> fieldError D fd k = ''''"
  proof -
    have "fieldError D fd ''patientId'' = ''''" "fieldError D fd ''dob'' = ''''"
      "fieldError D fd ''physicianName'' = ''''" "fieldError D fd ''npiNumber'' = ''''"
      "fieldError D fd ''procedureCode'' = ''''" "fieldError D fd ''startDate'' = ''''"
      "fieldError D fd ''endDate'' = ''''"
      using a Object_keys_mem by simp_all
    then show ?thesis
      by (intro conjI fieldError_nonempty)
  qed
  ultimately show ?thesis by blast
qed

text \<open>
  C3. A field is invalid when the validator gives a reason for the value that the form
  holds for it. When at least one field is invalid, one call of \<^verbatim>\<open>handleSubmit\<close> replaces
  the error map by the map that holds, for every invalid field, the reason of that field
  (and nothing for the other fields), emits exactly one notification, the error
  \<^verbatim>\<open>Please fix the validation errors before submitting.\<close>, and does not start the
  request: the count of requests, \<^verbatim>\<open>isSubmitting\<close> and the form data are unchanged.
\<close>

theorem handleSubmit_invalid:
  assumes "\<exists>key\<in>set Object_keys. key \<noteq> ''hasNotes'' \<and> fieldError D (formData st) key \<noteq> ''''"
  shows "(\<forall>key. errors (handleSubmit D st) key =
            (if key \<in> set Object_keys \<and> key \<noteq> ''hasNotes'' \<and> fieldError D (formData st) key \<noteq> ''''
             then Some (fieldError D (formData st) key) else None))
     \<and> toast (handleSubmit D st)
         = Some \<lparr>message = ''Please fix the validation errors before submitting.'', kind = error\<rparr>
     \<and> notifications (handleSubmit D st)
         = notifications st @
             [\<lparr>message = ''Please fix the validation errors before submitting.'', kind = error\<rparr>]
     \<and> apiCalls (handleSubmit D st) = apiCalls st
     \<and> isSubmitting (handleSubmit D st) = isSubmitting st
     \<and> formData (handleSubmit D st) = formData st"
proof -
  from assms have inv: "\<not> snd (isFormValid D (formData st))"
    unfolding isFormValid_snd by blast
  obtain newErrors isValid where p: "isFormValid D (formData st) = (newErrors, isValid)"
    by (cases "isFormValid D (formData st)")
  with inv have nv: "\<not> isValid" by simp
  have e: "newErrors key =
            (if key \<in> set Object_keys \<and> key \<noteq> ''hasNotes'' \<and> fieldError D (formData st) key \<noteq> ''''
             then Some (fieldError D (formData st) key) else None)" for key
    using isFormValid_fst [of D "formData st" key] p by simp
  have h: "handleSubmit D st =
      setToast (Some \<lparr>message = ''Please fix the validation errors before submitting.'', kind = error\<rparr>)
        (st\<lparr>errors := newErrors\<rparr>)"
    using p nv by (simp add: handleSubmit_def)
  show ?thesis
    unfolding h by (simp add: setToast_def e)
qed

theorem handleSubmit_invalid_witness:
  "errors (handleSubmit Date_parse initialState) ''patientId'' = Some ''Patient ID is required''
   \<and> errors (handleSubmit Date_parse initialState) ''dob'' = Some ''Date of Birth is required''
   \<and> errors (handleSubmit Date_parse initialState) ''physicianName'' = Some ''Physician Name is required''
   \<and> errors (handleSubmit Date_parse initialState) ''npiNumber'' = Some ''NPI Number is required''
   \<and> errors (handleSubmit Date_parse initialState) ''procedureCode'' = Some ''Procedure Code is required''
   \<and> errors (handleSubmit Date_parse initialState) ''startDate'' = Some ''Start Date is required''
   \<and> errors (handleSubmit Date_parse initialState) ''endDate'' = Some ''End Date is required''
   \<and> errors (handleSubmit Date_parse initialState) ''uploadedFile'' = None
   \<and> notifications (handleSubmit Date_parse initialState)
       = [\<lparr>message = ''Please fix the validation errors before submitting.'', kind = error\<rparr>]
   \<and> apiCalls (handleSubmit Date_parse initialState) = 0"
proof -
  have f: "formData initialState = initialFormData" "notifications initialState = []"
    "apiCalls initialState = 0"
    by (simp_all add: initialState_def)
  have e: "fieldError Date_parse initialFormData ''patientId'' = ''Patient ID is required''"
    "fieldError Date_parse initialFormData ''dob'' = ''Date of Birth is required''"
    "fieldError Date_parse initialFormData ''physicianName'' = ''Physician Name is required''"
    "fieldError Date_parse initialFormData ''npiNumber'' = ''NPI Number is required''"
    "fieldError Date_parse initialFormData ''procedureCode'' = ''Procedure Code is required''"
    "fieldError Date_parse initialFormData ''startDate'' = ''Start Date is required''"
    "fieldError Date_parse initialFormData ''endDate'' = ''End Date is required''"
    by (simp_all add: fieldError_empty initialFormData_def)
  have u: "fieldError Date_parse initialFormData ''uploadedFile'' = ''''"
    by (simp add: fieldError_def validateField_def)
  have h: "\<exists>key\<in>set Object_keys. key \<noteq> ''hasNotes''
      \<and> fieldError Date_parse (formData initialState) key \<noteq> ''''"
    unfolding f by (rule bexI [of _ "''patientId''"]) (simp_all add: e Object_keys_mem)
  from handleSubmit_invalid [OF h] show ?thesis
    unfolding f by (simp add: e u Object_keys_mem)
qed

section \<open>The order of calendar dates\<close>

lemma DaysInMonth_ge: "28 \<le> DaysInMonth y m"
  by (simp add: DaysInMonth_def)

lemma days_before_split:
  assumes "1 \<le> m" "m \<le> m'"
  shows "(\<Sum>k\<leftarrow>[1..<m']. DaysInMonth y k)
         = (\<Sum>k\<leftarrow>[1..<m]. DaysInMonth y k) + (\<Sum>k\<leftarrow>[m..<m']. DaysInMonth y k)"
proof -
  from assms(2) obtain j where j: "m' = m + j" by (auto simp: le_iff_add)
  from assms(1) have "[1..<m + j] = [1..<m] @ [m..<m + j]"
    by (rule upt_add_eq_append)
  then show ?thesis unfolding j by simp
qed

lemma days_before_year: "(\<Sum>k\<leftarrow>[1..<13]. DaysInMonth y k) = (if InLeapYear y then 366 else 365)"
proof -
  have "[1..<13] = [1,2,3,4,5,6,7,8,9,10,11,12::nat]" by (simp add: upt_rec)
  then show ?thesis by (simp add: DaysInMonth_def)
qed

lemma div_step:
  fixes a n :: int
  assumes "1 < n"
  shows "(a + 1) div n = a div n + (if (a + 1) mod n = 0 then 1 else 0)"
proof -
  have r: "0 \<le> a mod n" "a mod n < n" using assms by simp_all
  have one: "1 div n = 0" "1 mod n = 1" using assms by simp_all
  have d: "(a + 1) div n = a div n + (a mod n + 1) div n"
    using div_add1_eq [of a 1 n] by (simp add: one)
  have m: "(a + 1) mod n = (a mod n + 1) mod n"
    using mod_add_eq [of a n 1] by (simp add: one)
  show ?thesis
  proof (cases "a mod n + 1 = n")
    case True
    then show ?thesis using d m assms by simp
  next
    case False
    with r have lt: "a mod n + 1 < n" by simp
    with r have "(a mod n + 1) div n = 0" "(a mod n + 1) mod n = a mod n + 1"
      by simp_all
    with r show ?thesis using d m by simp
  qed
qed

lemma shift_mod:
  "(y - 1968) mod 4 = y mod 4" "(y - 1900) mod 100 = y mod 100" "(y - 1600) mod 400 = y mod 400"
  for y :: int
proof -
  have "(y + 4 * (- 492)) mod 4 = y mod 4" by (rule mod_mult_self2)
  then show "(y - 1968) mod 4 = y mod 4" by simp
  have "(y + 100 * (- 19)) mod 100 = y mod 100" by (rule mod_mult_self2)
  then show "(y - 1900) mod 100 = y mod 100" by simp
  have "(y + 400 * (- 4)) mod 400 = y mod 400" by (rule mod_mult_self2)
  then show "(y - 1600) mod 400 = y mod 400" by simp
qed

lemma mod_chain: "y mod 400 = 0 \<Longrightarrow> y mod 100 = 0" "y mod 100 = 0 \<Longrightarrow> y mod 4 = 0" for y :: int
proof -
  have "(100::int) dvd 400" "(4::int) dvd 100" by simp_all
  then show "y mod 400 = 0 \<Longrightarrow> y mod 100 = 0" "y mod 100 = 0 \<Longrightarrow> y mod 4 = 0"
    by (meson dvd_trans mod_0_imp_dvd dvd_imp_mod_0)+
qed

lemma div4_next_year: "(y - 1968) div 4 = (y - 1969) div 4 + (if y mod 4 = 0 then 1 else 0)" for y :: int
proof -
  have "(y - 1968) div 4 = (y - 1969) div 4 + (if (y - 1968) mod 4 = 0 then 1 else 0)"
    using div_step [of 4 "y - 1969"] by simp
  then show ?thesis by (simp only: shift_mod)
qed

lemma div100_next_year: "(y - 1900) div 100 = (y - 1901) div 100 + (if y mod 100 = 0 then 1 else 0)" for y :: int
proof -
  have "(y - 1900) div 100 = (y - 1901) div 100 + (if (y - 1900) mod 100 = 0 then 1 else 0)"
    using div_step [of 100 "y - 1901"] by simp
  then show ?thesis by (simp only: shift_mod)
qed

lemma div400_next_year: "(y - 1600) div 400 = (y - 1601) div 400 + (if y mod 400 = 0 then 1 else 0)" for y :: int
proof -
  have "(y - 1600) div 400 = (y - 1601) div 400 + (if (y - 1600) mod 400 = 0 then 1 else 0)"
    using div_step [of 400 "y - 1601"] by simp
  then show ?thesis by (simp only: shift_mod)
qed

lemma DayFromYear_unfold_Suc:
  "DayFromYear (y + 1) = 365 * (y - 1969) + (y - 1968) div 4 - (y - 1900) div 100 + (y - 1600) div 400"
  by (simp add: DayFromYear_def)

lemma mod_chain_not:
  "y mod 100 \<noteq> 0 \<Longrightarrow> y mod 400 \<noteq> 0" "y mod 4 \<noteq> 0 \<Longrightarrow> y mod 100 \<noteq> 0" for y :: int
  by (erule contrapos_nn, erule mod_chain)+

lemma DayFromYear_Suc:
  "DayFromYear (y + 1) = DayFromYear y + (if InLeapYear y then 366 else 365)"
proof -
  consider (c400) "y mod 400 = 0" | (c100) "y mod 400 \<noteq> 0" "y mod 100 = 0"
    | (c4) "y mod 100 \<noteq> 0" "y mod 4 = 0" | (c1) "y mod 4 \<noteq> 0"
    by blast
  then show ?thesis
  proof cases
    case c400
    have m: "y mod 100 = 0" "y mod 4 = 0"
      using mod_chain(1) [OF c400] mod_chain(2) [OF mod_chain(1) [OF c400]] by blast+
    have l: "InLeapYear y" by (simp only: InLeapYear_def c400 m simp_thms)
    show ?thesis
      unfolding DayFromYear_unfold_Suc div4_next_year div100_next_year div400_next_year
      by (simp only: DayFromYear_def l c400 m if_True) simp
  next
    case c100
    have m: "y mod 4 = 0" using mod_chain(2) [OF c100(2)] .
    have l: "\<not> InLeapYear y" by (simp only: InLeapYear_def c100 m simp_thms)
    show ?thesis
      unfolding DayFromYear_unfold_Suc div4_next_year div100_next_year div400_next_year
      by (simp only: DayFromYear_def l c100 m if_True if_False) simp
  next
    case c4
    have m: "y mod 400 \<noteq> 0" using c4(1) by (rule mod_chain_not)
    have l: "InLeapYear y" by (simp only: InLeapYear_def c4 m simp_thms)
    show ?thesis
      unfolding DayFromYear_unfold_Suc div4_next_year div100_next_year div400_next_year
      by (simp only: DayFromYear_def l c4 m if_True if_False) simp
  next
    case c1
    have m1: "y mod 100 \<noteq> 0" using c1 by (rule mod_chain_not)
    have m2: "y mod 400 \<noteq> 0" using m1 by (rule mod_chain_not)
    have l: "\<not> InLeapYear y" by (simp only: InLeapYear_def c1 simp_thms)
    show ?thesis
      unfolding DayFromYear_unfold_Suc div4_next_year div100_next_year div400_next_year
      by (simp only: DayFromYear_def l c1 m1 m2 if_True if_False) simp
  qed
qed

lemma DayFromYear_mono: "y \<le> y' \<Longrightarrow> DayFromYear y \<le> DayFromYear y'"
proof (induction y' rule: int_ge_induct)
  case base
  show ?case by simp
next
  case (step i)
  have "DayFromYear i \<le> DayFromYear (i + 1)" by (simp add: DayFromYear_Suc)
  with step.IH show ?case by (rule order_trans)
qed

lemma days_before_nonneg: "0 \<le> (\<Sum>k\<leftarrow>[m..<m']. DaysInMonth y k)"
proof (rule sum_list_nonneg)
  fix x assume "x \<in> set (map (DaysInMonth y) [m..<m'])"
  then obtain k where "x = DaysInMonth y k" by auto
  with DaysInMonth_ge [of y k] show "0 \<le> x" by simp
qed

lemma days_before_mono:
  assumes "1 \<le> m" "m \<le> m'"
  shows "(\<Sum>k\<leftarrow>[1..<m]. DaysInMonth y k) \<le> (\<Sum>k\<leftarrow>[1..<m']. DaysInMonth y k)"
  using days_before_split [OF assms, of y] days_before_nonneg [of y m m'] by simp

lemma days_before_Suc:
  "1 \<le> m \<Longrightarrow> (\<Sum>k\<leftarrow>[1..<Suc m]. DaysInMonth y k) = (\<Sum>k\<leftarrow>[1..<m]. DaysInMonth y k) + DaysInMonth y m"
  by simp

lemma day_before_next_month:
  assumes "1 \<le> m" "m < m'" "d \<le> DaysInMonth y m"
  shows "(\<Sum>k\<leftarrow>[1..<m]. DaysInMonth y k) + d \<le> (\<Sum>k\<leftarrow>[1..<m']. DaysInMonth y k)"
proof -
  have "(\<Sum>k\<leftarrow>[1..<m]. DaysInMonth y k) + d \<le> (\<Sum>k\<leftarrow>[1..<Suc m]. DaysInMonth y k)"
    using assms(1,3) by (simp add: days_before_Suc)
  also have "\<dots> \<le> (\<Sum>k\<leftarrow>[1..<m']. DaysInMonth y k)"
    using assms(1,2) by (intro days_before_mono) simp_all
  finally show ?thesis .
qed

lemma MakeDay_less:
  assumes a: "1 \<le> m" "m \<le> 12" "1 \<le> d" "d \<le> DaysInMonth y m"
    and b: "1 \<le> m'" "m' \<le> 12" "1 \<le> d'" "d' \<le> DaysInMonth y' m'"
    and e: "earlier (y, m, d) (y', m', d')"
  shows "MakeDay y m d < MakeDay y' m' d'"
proof -
  from e consider (year) "y < y'" | (month) "y = y'" "m < m'" | (day) "y = y'" "m = m'" "d < d'"
    by auto
  then show ?thesis
  proof cases
    case year
    have "(\<Sum>k\<leftarrow>[1..<m]. DaysInMonth y k) + d \<le> (\<Sum>k\<leftarrow>[1..<13]. DaysInMonth y k)"
      using a by (intro day_before_next_month) simp_all
    then have "MakeDay y m d < DayFromYear y + (if InLeapYear y then 366 else 365)"
      unfolding MakeDay_def days_before_year by simp
    also have "\<dots> = DayFromYear (y + 1)" by (simp only: DayFromYear_Suc)
    also have "\<dots> \<le> DayFromYear y'" using year by (intro DayFromYear_mono) simp
    also have "\<dots> \<le> MakeDay y' m' d'"
      unfolding MakeDay_def using days_before_nonneg [of y' 1 m'] b(3) by simp
    finally show ?thesis .
  next
    case month
    have "(\<Sum>k\<leftarrow>[1..<m]. DaysInMonth y k) + d \<le> (\<Sum>k\<leftarrow>[1..<m']. DaysInMonth y k)"
      using a(1) month(2) a(4) by (rule day_before_next_month)
    then show ?thesis unfolding MakeDay_def month(1) [symmetric] using b(3) by simp
  next
    case day
    then show ?thesis by (simp add: MakeDay_def)
  qed
qed

lemma earlier_total: "a = b \<or> earlier a b \<or> earlier b a"
  by (cases a; cases b) auto

lemma MakeDay_less_iff:
  assumes a: "1 \<le> m" "m \<le> 12" "1 \<le> d" "d \<le> DaysInMonth y m"
    and b: "1 \<le> m'" "m' \<le> 12" "1 \<le> d'" "d' \<le> DaysInMonth y' m'"
  shows "MakeDay y m d < MakeDay y' m' d' \<longleftrightarrow> earlier (y, m, d) (y', m', d')"
proof
  assume "earlier (y, m, d) (y', m', d')"
  with a b show "MakeDay y m d < MakeDay y' m' d'" by (rule MakeDay_less)
next
  assume l: "MakeDay y m d < MakeDay y' m' d'"
  show "earlier (y, m, d) (y', m', d')"
  proof (rule ccontr)
    assume n: "\<not> earlier (y, m, d) (y', m', d')"
    with earlier_total [of "(y, m, d)" "(y', m', d')"]
    consider "(y, m, d) = (y', m', d')" | "earlier (y', m', d') (y, m, d)" by blast
    then show False
    proof cases
      case 1
      with l show False by simp
    next
      case 2
      with b a have "MakeDay y' m' d' < MakeDay y m d" by (rule MakeDay_less)
      with l show False by simp
    qed
  qed
qed

section \<open>The validator on endDate\<close>

lemma date_only_valid:
  assumes "date_only s = Some (y, m, d)"
  shows "1 \<le> m \<and> m \<le> 12 \<and> 1 \<le> d \<and> d \<le> DaysInMonth y m"
proof -
  have c: "1 \<le> m \<and> m \<le> 12 \<and> 1 \<le> d \<and> d \<le> DaysInMonth y m"
    if "calendar ys ms ds = Some (y, m, d)" for ys ms ds
    using that by (auto simp: calendar_def split: if_splits option.splits)
  from assms show ?thesis
    unfolding date_only_def by (auto split: list.splits dest: c)
qed

lemma UTC_midnight_less:
  assumes "date_only v = Some a" "date_only s = Some b"
  shows "(UTC_midnight a < UTC_midnight b) = earlier a b"
proof -
  obtain y m d where a: "a = (y, m, d)" by (cases a)
  obtain y' m' d' where b: "b = (y', m', d')" by (cases b)
  note va = date_only_valid [OF assms(1) [unfolded a]]
  note vb = date_only_valid [OF assms(2) [unfolded b]]
  have "MakeDay y m d < MakeDay y' m' d' \<longleftrightarrow> earlier (y, m, d) (y', m', d')"
    using va vb by (intro MakeDay_less_iff) simp_all
  then show ?thesis by (simp add: a b UTC_midnight_def msPerDay_def)
qed

lemma Date_parse_UTC_midnight: "date_only s = Some a \<Longrightarrow> Date_parse s = Some (UTC_midnight a)"
  by (cases a) (simp add: Date_parse_def UTC_midnight_def)

lemma validateField_endDate_Date_lt:
  "v \<noteq> '''' \<Longrightarrow> startDate fd \<noteq> '''' \<Longrightarrow>
     validateField D fd ''endDate'' (Str v) =
       (if Date_lt (D v) (D (startDate fd)) then ''End Date cannot be before Start Date'' else '''')"
  by (simp add: validateField_def)

lemma Date_lt_iff: "Date_lt x y = (\<exists>e s. x = Some e \<and> y = Some s \<and> e < s)"
  by (cases x; cases y) simp_all

text \<open>
  C7, as the code has it. With a non-empty end date and a non-empty start date,
  validating \<^verbatim>\<open>endDate\<close> compares the time values of the two Dates: it gives
  \<^verbatim>\<open>End Date cannot be before Start Date\<close> exactly when both strings parse and the instant
  of the end date is strictly before the instant of the start date, and no error
  otherwise. For two strings of the date-only form, which the engine reads as midnight UTC
  of their calendar dates, this is the order of the calendar: the error appears exactly
  when the end date is earlier by year, month and day; equal dates are valid, also when
  the strings differ (\<^verbatim>\<open>2024-01\<close> and \<^verbatim>\<open>2024-01-01\<close>), and a later end date is valid.
\<close>

theorem validateField_endDate:
  "v \<noteq> '''' \<Longrightarrow> startDate fd \<noteq> '''' \<Longrightarrow>
     ((validateField D fd ''endDate'' (Str v) = ''End Date cannot be before Start Date'')
        = (\<exists>e s. D v = Some e \<and> D (startDate fd) = Some s \<and> e < s))
     \<and> ((validateField D fd ''endDate'' (Str v) = '''')
        = (\<not> (\<exists>e s. D v = Some e \<and> D (startDate fd) = Some s \<and> e < s)))
     \<and> (\<forall>a b. date_only v = Some a \<and> date_only (startDate fd) = Some b
              \<and> D v = Some (UTC_midnight a) \<and> D (startDate fd) = Some (UTC_midnight b) \<longrightarrow>
          ((validateField D fd ''endDate'' (Str v) = ''End Date cannot be before Start Date'')
             = earlier a b)
          \<and> ((validateField D fd ''endDate'' (Str v) = '''') = (\<not> earlier a b)))"
proof -
  assume h: "v \<noteq> ''''" "startDate fd \<noteq> ''''"
  note eq = validateField_endDate_Date_lt [OF h, of D]
  have 1: "(validateField D fd ''endDate'' (Str v) = ''End Date cannot be before Start Date'')
        = (\<exists>e s. D v = Some e \<and> D (startDate fd) = Some s \<and> e < s)"
    unfolding eq Date_lt_iff [symmetric] by simp
  have 2: "(validateField D fd ''endDate'' (Str v) = '''')
        = (\<not> (\<exists>e s. D v = Some e \<and> D (startDate fd) = Some s \<and> e < s))"
    unfolding eq Date_lt_iff [symmetric] by simp
  have 3: "((validateField D fd ''endDate'' (Str v) = ''End Date cannot be before Start Date'')
             = earlier a b)
          \<and> ((validateField D fd ''endDate'' (Str v) = '''') = (\<not> earlier a b))"
    if "date_only v = Some a \<and> date_only (startDate fd) = Some b
        \<and> D v = Some (UTC_midnight a) \<and> D (startDate fd) = Some (UTC_midnight b)" for a b
  proof -
    from that have "date_only v = Some a" "date_only (startDate fd) = Some b" by simp_all
    then have l: "(UTC_midnight a < UTC_midnight b) = earlier a b"
      by (rule UTC_midnight_less)
    from that have "Date_lt (D v) (D (startDate fd)) = earlier a b"
      by (simp add: l)
    then show ?thesis unfolding eq by simp
  qed
  from 1 2 3 show ?thesis by blast
qed

theorem validateField_endDate_witness:
  "validateField Date_parse (initialFormData\<lparr>startDate := ''2024-01-10''\<rparr>) ''endDate''
      (Str ''2024-01-05'') = ''End Date cannot be before Start Date''
   \<and> validateField Date_parse (initialFormData\<lparr>startDate := ''2024-01-10''\<rparr>) ''endDate''
      (Str ''2024-01-10'') = ''''
   \<and> validateField Date_parse (initialFormData\<lparr>startDate := ''2024-01-10''\<rparr>) ''endDate''
      (Str ''2024-01-11'') = ''''
   \<and> validateField Date_parse (initialFormData\<lparr>startDate := ''2024-01''\<rparr>) ''endDate''
      (Str ''2024-01-01'') = ''''
   \<and> date_only ''2024-01-05'' = Some (2024, 1, 5)
   \<and> date_only ''2024-01'' = Some (2024, 1, 1)
   \<and> UTC_midnight (2024, 1, 10) = 1704844800000
   \<and> UTC_midnight (2024, 3, 1) = 1709251200000
   \<and> UTC_midnight (1970, 1, 1) = 0"
proof -
  have c: "date_only ''2024-01-05'' = Some (2024, 1, 5)"
    "date_only ''2024-01-10'' = Some (2024, 1, 10)"
    "date_only ''2024-01-11'' = Some (2024, 1, 11)"
    "date_only ''2024-01-01'' = Some (2024, 1, 1)"
    "date_only ''2024-01'' = Some (2024, 1, 1)"
    by code_simp+
  have u: "UTC_midnight (2024, 1, 10) = 1704844800000" "UTC_midnight (2024, 3, 1) = 1709251200000"
    "UTC_midnight (1970, 1, 1) = 0"
    by code_simp+
  have s: "startDate (initialFormData\<lparr>startDate := x\<rparr>) = x" for x by simp
  have n: "''2024-01-05'' \<noteq> ''''" "''2024-01-10'' \<noteq> ''''" "''2024-01-11'' \<noteq> ''''"
    "''2024-01-01'' \<noteq> ''''" "''2024-01'' \<noteq> ''''"
    by simp_all
  note p = c [THEN Date_parse_UTC_midnight]
  note t1 = validateField_endDate [of "''2024-01-05''" "initialFormData\<lparr>startDate := ''2024-01-10''\<rparr>"
      Date_parse, unfolded s, OF n(1) n(2)]
  note t2 = validateField_endDate [of "''2024-01-10''" "initialFormData\<lparr>startDate := ''2024-01-10''\<rparr>"
      Date_parse, unfolded s, OF n(2) n(2)]
  note t3 = validateField_endDate [of "''2024-01-11''" "initialFormData\<lparr>startDate := ''2024-01-10''\<rparr>"
      Date_parse, unfolded s, OF n(3) n(2)]
  note t4 = validateField_endDate [of "''2024-01-01''" "initialFormData\<lparr>startDate := ''2024-01''\<rparr>"
      Date_parse, unfolded s, OF n(4) n(5)]
  from t1 c(1,2) p(1,2) have 1: "validateField Date_parse (initialFormData\<lparr>startDate := ''2024-01-10''\<rparr>) ''endDate''
      (Str ''2024-01-05'') = ''End Date cannot be before Start Date''"
    by simp
  from t2 c(2) p(2) have 2: "validateField Date_parse (initialFormData\<lparr>startDate := ''2024-01-10''\<rparr>) ''endDate''
      (Str ''2024-01-10'') = ''''"
    by simp
  from t3 c(3,2) p(3,2) have 3: "validateField Date_parse (initialFormData\<lparr>startDate := ''2024-01-10''\<rparr>) ''endDate''
      (Str ''2024-01-11'') = ''''"
    by simp
  from t4 c(4,5) p(4,5) have 4: "validateField Date_parse (initialFormData\<lparr>startDate := ''2024-01''\<rparr>) ''endDate''
      (Str ''2024-01-01'') = ''''"
    by simp
  from 1 2 3 4 c(1,5) u show ?thesis by simp
qed

text \<open>
  Strings that carry a time of day are compared by the instant, not by the calendar date:
  with the start \<^verbatim>\<open>2024-01-10T00:00:01Z\<close> the end \<^verbatim>\<open>2024-01-10T00:00:00Z\<close>, the same day one
  second earlier, is reported as before the start date.
\<close>

theorem validateField_endDate_counterexample:
  "validateField instants (initialFormData\<lparr>startDate := ''2024-01-10T00:00:01Z''\<rparr>) ''endDate''
      (Str ''2024-01-10T00:00:00Z'') = ''End Date cannot be before Start Date''
   \<and> date_only (take 10 ''2024-01-10T00:00:00Z'') = Some (2024, 1, 10)
   \<and> date_only (take 10 ''2024-01-10T00:00:01Z'') = Some (2024, 1, 10)"
  by (simp add: validateField_def instants_def, code_simp)

end
